theory Spec2Isabelle
  imports Main
begin

section \<open>The manipulate plugin: data model\<close>

text \<open>
  The development embeds \<^verbatim>\<open>flexget/plugins/modify/manipulate.py\<close>. An entry maps
  field names to values; the values the plugin reads and writes are text or Python's
  \<^verbatim>\<open>None\<close> (which \<^verbatim>\<open>entry.get\<close> returns for a missing field and which line 150 may
  store). Strings are lists of 8-bit characters, read as the code points 0 to 255.
\<close>

datatype pyval = PNone | PStr string

type_synonym entry = "string \<rightharpoonup> pyval"

datatype phase = Metainfo | Filter | Modify

record replace_config =
  regexp :: string
  format :: string

text \<open>
  The body of one rule, as the schema (lines 32 to 57) admits it: every key is optional,
  so every field is an option; \<open>None\<close> is "key not in the dict".
\<close>

record config =
  c_phase :: "phase option"
  c_from :: "string option"
  c_extract :: "string option"
  c_separator :: "string option"
  c_remove :: "bool option"
  c_replace :: "replace_config option"

text \<open>
  A list item of the configuration is a dict from destination fields to rule bodies;
  \<^verbatim>\<open>item.items()\<close> walks it in order, so it is an association list.
\<close>

type_synonym item = "(string \<times> config) list"

datatype error = KeyError string | ReError string | PluginError string

text \<open>
  Every logging call of the source is one event that carries the call's arguments; the
  format strings are not expanded.
\<close>

datatype log_event =
    Debug_field string string pyval
  | Warning_cannot_extract string
  | Debug_groups "string list"
  | Debug_after_extract string string
  | Warning_cannot_replace string
  | Debug_after_replace string string
  | Verbose_field_now string pyval
  | Verbose_modified nat

text \<open>
  The state of one call of \<^verbatim>\<open>process\<close>: the entry being mutated, the local variable
  \<^verbatim>\<open>modified\<close>, and what has been logged so far.
\<close>

record pstate =
  entry :: entry
  modified :: bool
  logged :: "log_event list"

definition emit :: "log_event \<Rightarrow> pstate \<Rightarrow> pstate" where
  "emit ev st = st\<lparr>logged := logged st @ [ev]\<rparr>"

subsection \<open>The regular-expression library as a parameter\<close>

text \<open>
  \<^verbatim>\<open>re.search(pattern, string, flags)\<close> gives no match (\<open>None\<close>) or a match object, of
  which the source reads only \<^verbatim>\<open>groups()\<close>: one optional string per capturing group.
  \<^verbatim>\<open>re.compile(pattern, flags).sub(repl, string)\<close> gives a string. Either may raise
  \<^verbatim>\<open>re.error\<close>. The flags are passed as the source passes them.
\<close>

datatype re_flag = IGNORECASE | UNICODE

record re_engine =
  re_search :: "string \<Rightarrow> string \<Rightarrow> re_flag set \<Rightarrow> error + string option list option"
  re_sub :: "string \<Rightarrow> re_flag set \<Rightarrow> string \<Rightarrow> string \<Rightarrow> error + string"

subsection \<open>String helpers of Python\<close>

text \<open>\<^verbatim>\<open>str.isspace\<close> on the code points below 256.\<close>

definition py_isspace :: "char \<Rightarrow> bool" where
  "py_isspace c = (c \<in> set [CHR 0x09, CHR 0x0A, CHR 0x0B, CHR 0x0C, CHR 0x0D,
     CHR 0x1C, CHR 0x1D, CHR 0x1E, CHR 0x1F, CHR 0x20, CHR 0x85, CHR 0xA0])"

definition strip :: "string \<Rightarrow> string" where
  "strip s = rev (dropWhile py_isspace (rev (dropWhile py_isspace s)))"

fun join :: "string \<Rightarrow> string list \<Rightarrow> string" where
  "join sep [] = []"
| "join sep [x] = x"
| "join sep (x # y # ys) = x @ sep @ join sep (y # ys)"

section \<open>The Field Evaluator: \<^verbatim>\<open>Manipulate.process\<close>\<close>

definition entry_get :: "entry \<Rightarrow> string \<Rightarrow> pyval" where
  "entry_get e k = (case e k of None \<Rightarrow> PNone | Some v \<Rightarrow> v)"

text \<open>
  A step of the loop body either runs into \<^verbatim>\<open>continue\<close> or falls through to the next
  step with the current \<^verbatim>\<open>field_value\<close>.
\<close>

datatype flow = Continue pstate | Proceed pyval pstate

text \<open>Lines 127 to 136.\<close>

definition extract_step ::
  "re_engine \<Rightarrow> string \<Rightarrow> string \<Rightarrow> config \<Rightarrow> pyval \<Rightarrow> pstate \<Rightarrow> error + flow" where
  "extract_step re field from_field cfg field_value st =
     (case c_extract cfg of
        None \<Rightarrow> Inr (Proceed field_value st)
      | Some pat \<Rightarrow>
          (case field_value of
             PNone \<Rightarrow> Inr (Continue (emit (Warning_cannot_extract from_field) st))
           | PStr s \<Rightarrow>
               if s = [] then Inr (Continue (emit (Warning_cannot_extract from_field) st))
               else
                 (case re_search re pat s {IGNORECASE, UNICODE} of
                    Inl err \<Rightarrow> Inl err
                  | Inr None \<Rightarrow> Inr (Proceed field_value st)
                  | Inr (Some match) \<Rightarrow>
                      let groups = map the (filter (\<lambda>x. x \<noteq> None) match);
                          v = strip (join (case c_separator cfg of None \<Rightarrow> '' '' | Some sep \<Rightarrow> sep) groups)
                      in Inr (Proceed (PStr v)
                           (emit (Debug_after_extract field v) (emit (Debug_groups groups) st))))))"

text \<open>Lines 138 to 145.\<close>

definition replace_step ::
  "re_engine \<Rightarrow> string \<Rightarrow> string \<Rightarrow> config \<Rightarrow> pyval \<Rightarrow> pstate \<Rightarrow> error + flow" where
  "replace_step re field from_field cfg field_value st =
     (case c_replace cfg of
        None \<Rightarrow> Inr (Proceed field_value st)
      | Some replace_config \<Rightarrow>
          (case field_value of
             PNone \<Rightarrow> Inr (Continue (emit (Warning_cannot_replace from_field) st))
           | PStr s \<Rightarrow>
               if s = [] then Inr (Continue (emit (Warning_cannot_replace from_field) st))
               else
                 (case re_sub re (regexp replace_config) {IGNORECASE, UNICODE}
                         (format replace_config) s of
                    Inl err \<Rightarrow> Inl err
                  | Inr r \<Rightarrow>
                      Inr (Proceed (PStr (strip r))
                            (emit (Debug_after_replace field (strip r)) st)))))"

text \<open>
  The entries that \<^verbatim>\<open>process\<close> receives are the task's entries (lines 76 to 98), objects
  of FlexGet's class \<^verbatim>\<open>Entry\<close>. The class is not among the source files; it behaves as a
  dict but for its item assignment, of which this check is modelled: for the fields
  \<^verbatim>\<open>title\<close> and \<^verbatim>\<open>url\<close> a value that is not a string is refused with \<^verbatim>\<open>PluginError\<close>.
\<close>

definition entry_set :: "entry \<Rightarrow> string \<Rightarrow> pyval \<Rightarrow> error + entry" where
  "entry_set e key v =
     (if (key = ''title'' \<or> key = ''url'') \<and> v = PNone then Inl (PluginError key)
      else Inr (e(key \<mapsto> v)))"

text \<open>
  Lines 147 to 150. The \<^verbatim>\<open>or\<close> is short-circuit: \<^verbatim>\<open>entry[field]\<close> is read only when
  source and destination are the same field, and raises \<^verbatim>\<open>KeyError\<close> when the entry has
  no such field. Then, changed or not, line 150 assigns.
\<close>

definition assign_step :: "string \<Rightarrow> string \<Rightarrow> pyval \<Rightarrow> pstate \<Rightarrow> error + pstate" where
  "assign_step field from_field field_value st =
     (case (if from_field \<noteq> field then Inr True
            else (case entry st field of
                    None \<Rightarrow> Inl (KeyError field)
                  | Some old \<Rightarrow> Inr (old \<noteq> field_value))) of
        Inl err \<Rightarrow> Inl err
      | Inr changed \<Rightarrow>
          (let st1 = (if changed
                      then (emit (Verbose_field_now field field_value) st)\<lparr>modified := True\<rparr>
                      else st)
           in case entry_set (entry st1) field field_value of
                Inl err \<Rightarrow> Inl err
              | Inr e \<Rightarrow> Inr (st1\<lparr>entry := e\<rparr>)))"

text \<open>The body of the inner loop, lines 112 to 150, for one \<^verbatim>\<open>(field, config)\<close> pair.\<close>

definition process_field :: "re_engine \<Rightarrow> string \<Rightarrow> config \<Rightarrow> pstate \<Rightarrow> error + pstate" where
  "process_field re field cfg st0 =
     (let from_field = (case c_from cfg of None \<Rightarrow> field | Some f \<Rightarrow> f);
          field_value = entry_get (entry st0) from_field;
          st = emit (Debug_field field from_field field_value) st0
      in
        if c_remove cfg = Some True then
          (if entry st field \<noteq> None
           then Inr (st\<lparr>entry := (entry st)(field := None), modified := True\<rparr>)
           else Inr st)
        else
          (case extract_step re field from_field cfg field_value st of
             Inl err \<Rightarrow> Inl err
           | Inr (Continue st1) \<Rightarrow> Inr st1
           | Inr (Proceed v1 st1) \<Rightarrow>
               (case replace_step re field from_field cfg v1 st1 of
                  Inl err \<Rightarrow> Inl err
                | Inr (Continue st2) \<Rightarrow> Inr st2
                | Inr (Proceed v2 st2) \<Rightarrow> assign_step field from_field v2 st2)))"

text \<open>The inner loop over \<^verbatim>\<open>item.items()\<close> and the outer loop over \<^verbatim>\<open>jobs\<close>.\<close>

fun process_item :: "re_engine \<Rightarrow> item \<Rightarrow> pstate \<Rightarrow> error + pstate" where
  "process_item re [] st = Inr st"
| "process_item re ((field, cfg) # rest) st =
     (case process_field re field cfg st of
        Inl err \<Rightarrow> Inl err
      | Inr st' \<Rightarrow> process_item re rest st')"

fun process_jobs :: "re_engine \<Rightarrow> item list \<Rightarrow> pstate \<Rightarrow> error + pstate" where
  "process_jobs re [] st = Inr st"
| "process_jobs re (item # jobs) st =
     (case process_item re item st of
        Inl err \<Rightarrow> Inl err
      | Inr st' \<Rightarrow> process_jobs re jobs st')"

text \<open>
  \<^verbatim>\<open>process(entry, jobs)\<close>: the returned state holds the mutated entry and, in
  \<open>modified\<close>, the value the source returns. \<open>lg\<close> is the log before the call.
  An exception that leaves the call is the value \<open>Inl\<close>.
\<close>

definition process :: "re_engine \<Rightarrow> entry \<Rightarrow> item list \<Rightarrow> log_event list \<Rightarrow> error + pstate" where
  "process re e jobs lg = process_jobs re jobs \<lparr>entry = e, modified = False, logged = lg\<rparr>"

section \<open>The Job Compiler and the phase handlers\<close>

text \<open>
  \<^verbatim>\<open>on_task_start\<close>, lines 64 to 69: \<^verbatim>\<open>self.phase_jobs\<close> has the three phases as keys
  from the start, so it is a total function on \<open>phase\<close>. For every rule body of an item,
  the item itself (the whole dict) is appended to the list of that body's phase.
\<close>

definition add_job :: "item \<Rightarrow> config \<Rightarrow> (phase \<Rightarrow> item list) \<Rightarrow> (phase \<Rightarrow> item list)" where
  "add_job item item_config phase_jobs =
     (let ph = (case c_phase item_config of None \<Rightarrow> Metainfo | Some p \<Rightarrow> p)
      in phase_jobs(ph := phase_jobs ph @ [item]))"

definition on_task_start :: "item list \<Rightarrow> (phase \<Rightarrow> item list)" where
  "on_task_start cfg =
     fold (\<lambda>item phase_jobs. fold (add_job item) (map snd item) phase_jobs) cfg (\<lambda>_. [])"

record task =
  entries :: "entry list"
  rejected :: "entry list"

text \<open>
  \<^verbatim>\<open>sum(self.process(entry, jobs) for entry in ...)\<close>: the entries are processed in
  order, each mutated in place; \<open>True\<close> counts 1.
\<close>

fun process_entries ::
  "re_engine \<Rightarrow> item list \<Rightarrow> entry list \<Rightarrow> log_event list \<Rightarrow>
     error + (entry list \<times> nat \<times> log_event list)" where
  "process_entries re jobs [] lg = Inr ([], 0, lg)"
| "process_entries re jobs (e # es) lg =
     (case process re e jobs lg of
        Inl err \<Rightarrow> Inl err
      | Inr st \<Rightarrow>
          (case process_entries re jobs es (logged st) of
             Inl err \<Rightarrow> Inl err
           | Inr (es', n, lg') \<Rightarrow>
               Inr (entry st # es', (if modified st then 1 else 0) + n, lg')))"

definition on_task_metainfo ::
  "re_engine \<Rightarrow> (phase \<Rightarrow> item list) \<Rightarrow> task \<Rightarrow> log_event list \<Rightarrow>
     error + (task \<times> log_event list)" where
  "on_task_metainfo re phase_jobs t lg =
     (if phase_jobs Metainfo = [] then Inr (t, lg)
      else
        (case process_entries re (phase_jobs Metainfo) (entries t) lg of
           Inl err \<Rightarrow> Inl err
         | Inr (es, n, lg') \<Rightarrow> Inr (t\<lparr>entries := es\<rparr>, lg' @ [Verbose_modified n])))"

definition on_task_filter ::
  "re_engine \<Rightarrow> (phase \<Rightarrow> item list) \<Rightarrow> task \<Rightarrow> log_event list \<Rightarrow>
     error + (task \<times> log_event list)" where
  "on_task_filter re phase_jobs t lg =
     (if phase_jobs Filter = [] then Inr (t, lg)
      else
        (case process_entries re (phase_jobs Filter) (entries t @ rejected t) lg of
           Inl err \<Rightarrow> Inl err
         | Inr (es, n, lg') \<Rightarrow>
             Inr (t\<lparr>entries := take (length (entries t)) es,
                     rejected := drop (length (entries t)) es\<rparr>,
                  lg' @ [Verbose_modified n])))"

definition on_task_modify ::
  "re_engine \<Rightarrow> (phase \<Rightarrow> item list) \<Rightarrow> task \<Rightarrow> log_event list \<Rightarrow>
     error + (task \<times> log_event list)" where
  "on_task_modify re phase_jobs t lg =
     (if phase_jobs Modify = [] then Inr (t, lg)
      else
        (case process_entries re (phase_jobs Modify) (entries t @ rejected t) lg of
           Inl err \<Rightarrow> Inl err
         | Inr (es, n, lg') \<Rightarrow>
             Inr (t\<lparr>entries := take (length (entries t)) es,
                     rejected := drop (length (entries t)) es\<rparr>,
                  lg' @ [Verbose_modified n])))"

section \<open>A model of Python's \<^verbatim>\<open>re\<close> for a fragment of its syntax\<close>

text \<open>
  The statements about concrete patterns need the library's answers. This is a backtracking
  matcher for the patterns built from literal characters, \<^verbatim>\<open>.\<close>, \<^verbatim>\<open>\d\<close>, \<^verbatim>\<open>\s\<close>, escaped
  punctuation, capturing groups, \<^verbatim>\<open>|\<close> and the greedy quantifiers \<^verbatim>\<open>*\<close>, \<^verbatim>\<open>+\<close>, \<^verbatim>\<open>?\<close>,
  with Python's priorities (leftmost start, first alternative, longest repetition first).
  A pattern outside the fragment is answered with \<open>ReError\<close>: the model says nothing
  about it. All general theorems below hold for every engine; only the statements that name
  \<open>py_re\<close> depend on this model.
\<close>

abbreviation bs :: char where "bs \<equiv> CHR 0x5C"

datatype regex =
    Eps | Lit char | Dot | Digit | Space
  | Seq regex regex | Alt regex regex
  | Star regex | Opt regex
  | Group nat regex

fun mk_seq :: "regex list \<Rightarrow> regex" where
  "mk_seq [] = Eps"
| "mk_seq [r] = r"
| "mk_seq (r # rs) = Seq r (mk_seq rs)"

fun mk_alt :: "regex list \<Rightarrow> regex" where
  "mk_alt [] = Eps"
| "mk_alt [r] = r"
| "mk_alt (r # rs) = Alt r (mk_alt rs)"

definition quantify :: "char \<Rightarrow> regex \<Rightarrow> regex" where
  "quantify c r =
     (if c = CHR ''*'' then Star r else if c = CHR ''+'' then Seq r (Star r) else Opt r)"

definition ascii_alnum :: "char \<Rightarrow> bool" where
  "ascii_alnum c = (let n = (of_char c :: nat) in
     (48 \<le> n \<and> n \<le> 57) \<or> (65 \<le> n \<and> n \<le> 90) \<or> (97 \<le> n \<and> n \<le> 122))"

text \<open>
  The character after a backslash: \<^verbatim>\<open>\d\<close> and \<^verbatim>\<open>\s\<close> are classes, any character that is
  not an ASCII letter or digit stands for itself, the other escapes are outside the fragment.
\<close>

definition escape :: "char \<Rightarrow> regex option" where
  "escape e =
     (if e = CHR ''d'' then Some Digit
      else if e = CHR ''s'' then Some Space
      else if ascii_alnum e then None
      else Some (Lit e))"

text \<open>
  The parser reads the pattern left to right with a stack of open groups. A frame holds
  the number of its group (0 at top level), the finished alternatives, the atoms of the
  current alternative, and whether the last atom already carries a quantifier.
\<close>

type_synonym frame = "nat \<times> regex list \<times> regex list \<times> bool"

fun parse_go :: "string \<Rightarrow> nat \<Rightarrow> frame list \<Rightarrow> (regex \<times> nat) option" where
  "parse_go [] n [(g, alts, cur, q)] = Some (mk_alt (alts @ [mk_seq cur]), n)"
| "parse_go [] n st = None"
| "parse_go (c # s) n [] = None"
| "parse_go (c # s) n ((g, alts, cur, q) # st) =
     (if c = CHR ''('' then
        (case s of
           CHR ''?'' # s' \<Rightarrow> None
         | _ \<Rightarrow> parse_go s (Suc n) ((Suc n, [], [], False) # (g, alts, cur, q) # st))
      else if c = CHR '')'' then
        (case st of
           [] \<Rightarrow> None
         | (g', alts', cur', q') # st' \<Rightarrow>
             parse_go s n
               ((g', alts', cur' @ [Group g (mk_alt (alts @ [mk_seq cur]))], False) # st'))
      else if c = CHR ''|'' then parse_go s n ((g, alts @ [mk_seq cur], [], False) # st)
      else if c \<in> set ''*+?'' then
        (if q \<or> cur = [] then None
         else parse_go s n ((g, alts, butlast cur @ [quantify c (last cur)], True) # st))
      else if c = bs then
        (case s of
           [] \<Rightarrow> None
         | e # s' \<Rightarrow>
             (case escape e of
                None \<Rightarrow> None
              | Some a \<Rightarrow> parse_go s' n ((g, alts, cur @ [a], False) # st)))
      else if c \<in> set ''^$[]{}'' then None
      else if c = CHR ''.'' then parse_go s n ((g, alts, cur @ [Dot], False) # st)
      else parse_go s n ((g, alts, cur @ [Lit c], False) # st))"

text \<open>The parsed pattern and its number of capturing groups.\<close>

definition parse_re :: "string \<Rightarrow> (regex \<times> nat) option" where
  "parse_re pat = parse_go pat 0 [(0, [], [], False)]"

text \<open>
  \<^verbatim>\<open>str.lower\<close> on the code points below 256, for \<^verbatim>\<open>re.IGNORECASE\<close>: the letters
  A to Z and the Latin-1 capitals 0xC0 to 0xDE (without the sign 0xD7) have a lower-case
  partner 32 places up.
\<close>

definition upper_chars :: string where
  "upper_chars = ''ABCDEFGHIJKLMNOPQRSTUVWXYZ'' @
     [CHR 0xC0, CHR 0xC1, CHR 0xC2, CHR 0xC3, CHR 0xC4, CHR 0xC5, CHR 0xC6, CHR 0xC7,
      CHR 0xC8, CHR 0xC9, CHR 0xCA, CHR 0xCB, CHR 0xCC, CHR 0xCD, CHR 0xCE, CHR 0xCF,
      CHR 0xD0, CHR 0xD1, CHR 0xD2, CHR 0xD3, CHR 0xD4, CHR 0xD5, CHR 0xD6, CHR 0xD8,
      CHR 0xD9, CHR 0xDA, CHR 0xDB, CHR 0xDC, CHR 0xDD, CHR 0xDE]"

definition lower_chars :: string where
  "lower_chars = ''abcdefghijklmnopqrstuvwxyz'' @
     [CHR 0xE0, CHR 0xE1, CHR 0xE2, CHR 0xE3, CHR 0xE4, CHR 0xE5, CHR 0xE6, CHR 0xE7,
      CHR 0xE8, CHR 0xE9, CHR 0xEA, CHR 0xEB, CHR 0xEC, CHR 0xED, CHR 0xEE, CHR 0xEF,
      CHR 0xF0, CHR 0xF1, CHR 0xF2, CHR 0xF3, CHR 0xF4, CHR 0xF5, CHR 0xF6, CHR 0xF8,
      CHR 0xF9, CHR 0xFA, CHR 0xFB, CHR 0xFC, CHR 0xFD, CHR 0xFE]"

definition py_lower :: "char \<Rightarrow> char" where
  "py_lower c = (case map_of (zip upper_chars lower_chars) c of None \<Rightarrow> c | Some l \<Rightarrow> l)"

definition ceq :: "bool \<Rightarrow> char \<Rightarrow> char \<Rightarrow> bool" where
  "ceq ic a b = (if ic then py_lower a = py_lower b else a = b)"

type_synonym caps = "nat \<Rightarrow> string option"

text \<open>
  \<open>rmatch ic r s cp\<close> lists, in the order backtracking tries them, the ways \<open>r\<close> can
  match a prefix of \<open>s\<close>: the rest of the string and the captures. After an iteration
  that consumed nothing a repetition makes no further iteration.
\<close>

fun rmatch :: "bool \<Rightarrow> regex \<Rightarrow> string \<Rightarrow> caps \<Rightarrow> (string \<times> caps) list" where
  "rmatch ic Eps s cp = [(s, cp)]"
| "rmatch ic (Lit c) s cp =
     (case s of [] \<Rightarrow> [] | x # xs \<Rightarrow> if ceq ic c x then [(xs, cp)] else [])"
| "rmatch ic Dot s cp =
     (case s of [] \<Rightarrow> [] | x # xs \<Rightarrow> if x \<noteq> CHR 0x0A then [(xs, cp)] else [])"
| "rmatch ic Digit s cp =
     (case s of [] \<Rightarrow> [] | x # xs \<Rightarrow> if x \<in> set ''0123456789'' then [(xs, cp)] else [])"
| "rmatch ic Space s cp =
     (case s of [] \<Rightarrow> [] | x # xs \<Rightarrow> if py_isspace x then [(xs, cp)] else [])"
| "rmatch ic (Seq a b) s cp =
     concat (map (\<lambda>(s1, c1). rmatch ic b s1 c1) (rmatch ic a s cp))"
| "rmatch ic (Alt a b) s cp = rmatch ic a s cp @ rmatch ic b s cp"
| "rmatch ic (Star a) s cp =
     concat (map (\<lambda>(s1, c1). if length s1 < length s then rmatch ic (Star a) s1 c1
                              else [(s1, c1)])
                 (rmatch ic a s cp)) @ [(s, cp)]"
| "rmatch ic (Opt a) s cp = rmatch ic a s cp @ [(s, cp)]"
| "rmatch ic (Group g a) s cp =
     map (\<lambda>(s1, c1). (s1, c1(g \<mapsto> take (length s - length s1) s))) (rmatch ic a s cp)"

text \<open>\<^verbatim>\<open>search\<close>: the first start position with a match, and there the first match.\<close>

fun search_go :: "bool \<Rightarrow> regex \<Rightarrow> string \<Rightarrow> caps option" where
  "search_go ic r [] =
     (case rmatch ic r [] Map.empty of [] \<Rightarrow> None | (s1, cp) # _ \<Rightarrow> Some cp)"
| "search_go ic r (c # s) =
     (case rmatch ic r (c # s) Map.empty of
        [] \<Rightarrow> search_go ic r s
      | (s1, cp) # _ \<Rightarrow> Some cp)"

definition py_search :: "string \<Rightarrow> string \<Rightarrow> re_flag set \<Rightarrow> error + string option list option" where
  "py_search pat s flags =
     (case parse_re pat of
        None \<Rightarrow> Inl (ReError pat)
      | Some (r, n) \<Rightarrow>
          Inr (map_option (\<lambda>cp. map cp [1..<Suc n]) (search_go (IGNORECASE \<in> flags) r s)))"

text \<open>
  The replacement template: literal characters, \<^verbatim>\<open>\\\<close> and the references \<^verbatim>\<open>\1\<close> to
  \<^verbatim>\<open>\9\<close> (not followed by another digit).
\<close>

datatype tpiece = TLit char | TGroup nat

fun parse_template :: "string \<Rightarrow> tpiece list option" where
  "parse_template [] = Some []"
| "parse_template (c # s) =
     (if c \<noteq> bs then map_option ((#) (TLit c)) (parse_template s)
      else
        (case s of
           [] \<Rightarrow> None
         | e # s' \<Rightarrow>
             if e = bs then map_option ((#) (TLit bs)) (parse_template s')
             else if e \<in> set ''123456789'' \<and>
                     (case s' of [] \<Rightarrow> True | d # _ \<Rightarrow> d \<notin> set ''0123456789'')
               then map_option ((#) (TGroup (of_char e - 48))) (parse_template s')
             else None))"

fun group_ok :: "nat \<Rightarrow> tpiece \<Rightarrow> bool" where
  "group_ok n (TLit c) = True"
| "group_ok n (TGroup g) = (g \<le> n)"

text \<open>A group that did not take part in the match expands to the empty string.\<close>

fun expand :: "tpiece list \<Rightarrow> caps \<Rightarrow> string" where
  "expand [] cp = []"
| "expand (TLit c # t) cp = c # expand t cp"
| "expand (TGroup g # t) cp = (case cp g of None \<Rightarrow> [] | Some x \<Rightarrow> x) @ expand t cp"

text \<open>
  \<^verbatim>\<open>sub\<close> walks the string: the counter is the number of characters still covered by the
  last match. At a free position the first match is replaced; after an empty match the
  next match at the same position must consume something, else the character is copied.
\<close>

fun sub_go :: "bool \<Rightarrow> regex \<Rightarrow> tpiece list \<Rightarrow> nat \<Rightarrow> string \<Rightarrow> string" where
  "sub_go ic r t (Suc k) [] = []"
| "sub_go ic r t (Suc k) (c # s) = sub_go ic r t k s"
| "sub_go ic r t 0 [] =
     (case rmatch ic r [] Map.empty of [] \<Rightarrow> [] | (s1, cp) # _ \<Rightarrow> expand t cp)"
| "sub_go ic r t 0 (c # s) =
     (case rmatch ic r (c # s) Map.empty of
        [] \<Rightarrow> c # sub_go ic r t 0 s
      | (s1, cp) # rest \<Rightarrow>
          if length s1 \<le> length s then expand t cp @ sub_go ic r t (length s - length s1) s
          else
            (case filter (\<lambda>(s2, cp2). length s2 \<le> length s) rest of
               [] \<Rightarrow> expand t cp @ c # sub_go ic r t 0 s
             | (s2, cp2) # _ \<Rightarrow>
                 expand t cp @ expand t cp2 @ sub_go ic r t (length s - length s2) s))"

definition py_sub :: "string \<Rightarrow> re_flag set \<Rightarrow> string \<Rightarrow> string \<Rightarrow> error + string" where
  "py_sub pat flags repl s =
     (case parse_re pat of
        None \<Rightarrow> Inl (ReError pat)
      | Some (r, n) \<Rightarrow>
          (case parse_template repl of
             None \<Rightarrow> Inl (ReError repl)
           | Some t \<Rightarrow>
               if list_all (group_ok n) t then Inr (sub_go (IGNORECASE \<in> flags) r t 0 s)
               else Inl (ReError repl)))"

definition py_re :: re_engine where
  "py_re = \<lparr>re_search = py_search, re_sub = py_sub\<rparr>"

section \<open>Auxiliary facts\<close>

lemmas py_re_simps =
  py_re_def py_search_def py_sub_def parse_re_def escape_def ascii_alnum_def quantify_def
  py_isspace_def ceq_def py_lower_def upper_chars_def lower_chars_def

lemmas step_simps = extract_step_def replace_step_def strip_def py_isspace_def emit_def Let_def

lemmas field_simps = process_field_def assign_step_def entry_set_def entry_get_def step_simps

text \<open>The extract and the replace step only log: entry and flag pass through unchanged.\<close>

lemma extract_step_frame:
  "extract_step re field from_field cfg v st = Inr (Proceed v1 st1) \<Longrightarrow>
     entry st1 = entry st \<and> modified st1 = modified st"
  by (auto simp: extract_step_def emit_def Let_def
           split: option.splits pyval.splits if_splits sum.splits)

lemma replace_step_frame:
  "replace_step re field from_field cfg v st = Inr (Proceed v1 st1) \<Longrightarrow>
     entry st1 = entry st \<and> modified st1 = modified st"
  by (auto simp: replace_step_def emit_def Let_def
           split: option.splits pyval.splits if_splits sum.splits)

text \<open>From a string the two steps hand on a string.\<close>

lemma extract_step_text:
  "extract_step re field from_field cfg (PStr s) st = Inr (Proceed v st1) \<Longrightarrow> \<exists>t. v = PStr t"
  by (auto simp: extract_step_def Let_def split: option.splits if_splits sum.splits)

lemma replace_step_text:
  "replace_step re field from_field cfg (PStr s) st = Inr (Proceed v st1) \<Longrightarrow> \<exists>t. v = PStr t"
  by (auto simp: replace_step_def split: option.splits if_splits sum.splits)

text \<open>
  When every item of the configuration declares one destination field, \<^verbatim>\<open>on_task_start\<close>
  does group by phase: the list of a phase holds, in the original order, the items whose
  rule body has that phase (metainfo when none is given).
\<close>

lemma fold_add_job_single_field:
  assumes "list_all (\<lambda>item. length item = 1) cfg"
  shows "fold (\<lambda>item phase_jobs. fold (add_job item) (map snd item) phase_jobs) cfg pj p =
         pj p @ filter (\<lambda>item. (case c_phase (snd (hd item)) of None \<Rightarrow> Metainfo | Some q \<Rightarrow> q) = p) cfg"
  using assms
proof (induction cfg arbitrary: pj)
  case Nil
  then show ?case by simp
next
  case (Cons item cfg)
  from Cons.prems obtain fc where item: "item = [fc]"
    by (cases item) auto
  have rest: "list_all (\<lambda>item. length item = 1) cfg"
    using Cons.prems by simp
  have "fold (\<lambda>item phase_jobs. fold (add_job item) (map snd item) phase_jobs) (item # cfg) pj p =
        fold (\<lambda>item phase_jobs. fold (add_job item) (map snd item) phase_jobs) cfg
          (add_job item (snd fc) pj) p"
    by (simp add: item)
  also have "\<dots> = add_job item (snd fc) pj p @
        filter (\<lambda>item. (case c_phase (snd (hd item)) of None \<Rightarrow> Metainfo | Some q \<Rightarrow> q) = p) cfg"
    by (rule Cons.IH[OF rest])
  also have "\<dots> = pj p @
        filter (\<lambda>item. (case c_phase (snd (hd item)) of None \<Rightarrow> Metainfo | Some q \<Rightarrow> q) = p)
          (item # cfg)"
    by (simp add: add_job_def Let_def item)
  finally show ?case .
qed

lemma on_task_start_single_field:
  assumes "list_all (\<lambda>item. length item = 1) cfg"
  shows "on_task_start cfg p =
         filter (\<lambda>item. (case c_phase (snd (hd item)) of None \<Rightarrow> Metainfo | Some q \<Rightarrow> q) = p) cfg"
  by (simp add: on_task_start_def fold_add_job_single_field[OF assms])

text \<open>What the library model answers on the inputs used below.\<close>

lemma search_bracket_year:
  "py_search [bs, CHR ''['', bs, CHR ''d'', bs, CHR ''d'', bs, CHR ''d'', bs, CHR ''d'',
              bs, CHR '']'', CHR ''('', CHR ''.'', CHR ''*'', CHR '')'']
     ''[1999]Some Show'' {IGNORECASE, UNICODE} = Inr (Some [Some ''Some Show''])"
  by (simp add: py_re_simps)

lemma search_ignores_case:
  "py_search ''(SOME) (show)|(x)'' ''[1999]Some Show'' {IGNORECASE, UNICODE} =
     Inr (Some [Some ''Some'', Some ''Show'', None])"
  by (simp add: py_re_simps)

lemma search_no_match: "py_search ''x'' ''abc'' {IGNORECASE, UNICODE} = Inr None"
  by (simp add: py_re_simps)

lemma search_no_groups: "py_search ''b'' ''abc'' {IGNORECASE, UNICODE} = Inr (Some [])"
  by (simp add: py_re_simps)

lemma sub_whitespace_run:
  "py_sub [bs, CHR ''s'', CHR ''+''] {IGNORECASE, UNICODE} '' '' ''a   b'' = Inr ''a b''"
  by (simp add: py_re_simps)

lemma sub_every_match:
  "py_sub [bs, CHR ''s'', CHR ''+''] {IGNORECASE, UNICODE} '' '' ''  a  b   c '' = Inr '' a b c ''"
  by (simp add: py_re_simps)

lemma sub_ignores_case:
  "py_sub ''B'' {IGNORECASE, UNICODE} ''x'' ''abB'' = Inr ''axx''"
  by (simp add: py_re_simps)

lemma search_bracket_year_padded:
  "py_search [bs, CHR ''['', bs, CHR ''d'', bs, CHR ''d'', bs, CHR ''d'', bs, CHR ''d'',
              bs, CHR '']'', CHR ''('', CHR ''.'', CHR ''*'', CHR '')'']
     ''see [1999] Some Show '' {IGNORECASE, UNICODE} = Inr (Some [Some '' Some Show ''])"
  by (simp add: py_re_simps)

section \<open>The claims\<close>

subsection \<open>C1: a missing or empty source with extract or replace\<close>

text \<open>
  C1. A rule without \<^verbatim>\<open>remove\<close> that has \<^verbatim>\<open>extract\<close> or \<^verbatim>\<open>replace\<close>: when the source
  field is absent from the entry, or holds \<^verbatim>\<open>None\<close> or the empty string, the field is
  skipped. The entry and the modified flag stay as they were, one warning is logged (after
  the debug line of every field), and the loops go on with the next field and the next rule.
\<close>

theorem missing_source_is_skipped:
  assumes "c_remove cfg \<noteq> Some True"
    and "c_extract cfg \<noteq> None \<or> c_replace cfg \<noteq> None"
    and "from_field = (case c_from cfg of None \<Rightarrow> field | Some f \<Rightarrow> f)"
    and "entry st from_field = None \<or> entry st from_field = Some PNone
           \<or> entry st from_field = Some (PStr [])"
    and "st' = st\<lparr>logged := logged st @
           [Debug_field field from_field (entry_get (entry st) from_field),
            if c_extract cfg \<noteq> None then Warning_cannot_extract from_field
            else Warning_cannot_replace from_field]\<rparr>"
  shows "process_field re field cfg st = Inr st'
       \<and> entry st' = entry st \<and> modified st' = modified st
       \<and> process_item re ((field, cfg) # rest) st = process_item re rest st'
       \<and> process_jobs re ([(field, cfg)] # jobs) st = process_jobs re jobs st'"
proof -
  have v: "entry_get (entry st) from_field = PNone \<or> entry_get (entry st) from_field = PStr []"
    using assms(4) by (auto simp: entry_get_def)
  have pf: "process_field re field cfg st = Inr st'"
    using assms(1,2,3,5) v
    by (auto simp: process_field_def extract_step_def replace_step_def emit_def Let_def
             split: option.splits)
  show ?thesis using pf assms(5) by simp
qed

text \<open>
  C1 at an input: \<^verbatim>\<open>title: {from: original_title, extract: (x)}\<close> on an entry without
  \<^verbatim>\<open>original_title\<close>.
\<close>

theorem missing_source_is_skipped_witness:
  "process_field py_re ''title''
     \<lparr>c_phase = None, c_from = Some ''original_title'', c_extract = Some ''(x)'',
      c_separator = None, c_remove = None, c_replace = None\<rparr>
     \<lparr>entry = [''title'' \<mapsto> PStr ''T''], modified = False, logged = []\<rparr> =
   Inr \<lparr>entry = [''title'' \<mapsto> PStr ''T''], modified = False,
        logged = [Debug_field ''title'' ''original_title'' PNone,
                  Warning_cannot_extract ''original_title'']\<rparr>
 \<and> process_jobs py_re
     [[(''title'', \<lparr>c_phase = None, c_from = Some ''original_title'', c_extract = Some ''(x)'',
                     c_separator = None, c_remove = None, c_replace = None\<rparr>)]]
     \<lparr>entry = [''title'' \<mapsto> PStr ''T''], modified = False, logged = []\<rparr> =
   Inr \<lparr>entry = [''title'' \<mapsto> PStr ''T''], modified = False,
        logged = [Debug_field ''title'' ''original_title'' PNone,
                  Warning_cannot_extract ''original_title'']\<rparr>"
  using missing_source_is_skipped
          [where re = py_re and field = "''title''" and from_field = "''original_title''"
             and rest = "[]" and jobs = "[]"
             and st = "\<lparr>entry = [''title'' \<mapsto> PStr ''T''], modified = False, logged = []\<rparr>"
             and st' = "\<lparr>entry = [''title'' \<mapsto> PStr ''T''], modified = False,
                        logged = [Debug_field ''title'' ''original_title'' PNone,
                                  Warning_cannot_extract ''original_title'']\<rparr>"
             and cfg = "\<lparr>c_phase = None, c_from = Some ''original_title'',
                        c_extract = Some ''(x)'', c_separator = None, c_remove = None,
                        c_replace = None\<rparr>"]
  by (simp add: entry_get_def)

subsection \<open>C2: the lookup of the destination's old value\<close>

text \<open>
  C2 says that \<^verbatim>\<open>process\<close> never raises. The rule \<^verbatim>\<open>description: {}\<close> (no remove, extract,
  replace or from) on an entry that has no \<^verbatim>\<open>description\<close> reaches line 147 with source
  equal to destination, and \<^verbatim>\<open>entry[field]\<close> raises \<^verbatim>\<open>KeyError\<close>, whatever the
  regular-expression engine and the log so far.
\<close>

theorem missing_destination_raises_KeyError:
  "process re [''title'' \<mapsto> PStr ''x'']
     [[(''description'', \<lparr>c_phase = None, c_from = None, c_extract = None, c_separator = None,
                            c_remove = None, c_replace = None\<rparr>)]] lg =
   Inl (KeyError ''description'')"
  by (simp add: process_def field_simps)

subsection \<open>C3: phases of an item with several destination fields\<close>

text \<open>
  C3 says that a rule body runs only when its own phase is dispatched. The item
  \<^verbatim>\<open>{a: {phase: filter, remove: true}, b: {}}\<close> is appended, whole, to the metainfo list
  because of \<^verbatim>\<open>b\<close>; the metainfo handler then runs the body of \<^verbatim>\<open>a\<close> too and deletes
  the field \<^verbatim>\<open>a\<close>, although that body is declared for the filter phase.
\<close>

theorem filter_body_runs_in_metainfo:
  "on_task_start
     [[(''a'', \<lparr>c_phase = Some Filter, c_from = None, c_extract = None, c_separator = None,
                 c_remove = Some True, c_replace = None\<rparr>),
       (''b'', \<lparr>c_phase = None, c_from = None, c_extract = None, c_separator = None,
                 c_remove = None, c_replace = None\<rparr>)]] Metainfo =
     [[(''a'', \<lparr>c_phase = Some Filter, c_from = None, c_extract = None, c_separator = None,
                 c_remove = Some True, c_replace = None\<rparr>),
       (''b'', \<lparr>c_phase = None, c_from = None, c_extract = None, c_separator = None,
                 c_remove = None, c_replace = None\<rparr>)]]
 \<and> on_task_metainfo re
     (on_task_start
       [[(''a'', \<lparr>c_phase = Some Filter, c_from = None, c_extract = None, c_separator = None,
                   c_remove = Some True, c_replace = None\<rparr>),
         (''b'', \<lparr>c_phase = None, c_from = None, c_extract = None, c_separator = None,
                   c_remove = None, c_replace = None\<rparr>)]])
     \<lparr>entries = [[''a'' \<mapsto> PStr ''x'', ''b'' \<mapsto> PStr ''y'']], rejected = []\<rparr> [] =
   Inr (\<lparr>entries = [[''b'' \<mapsto> PStr ''y'']], rejected = []\<rparr>,
        [Debug_field ''a'' ''a'' (PStr ''x''), Debug_field ''b'' ''b'' (PStr ''y''),
         Verbose_modified 1])"
  by (auto simp: on_task_start_def add_job_def on_task_metainfo_def process_def field_simps)

subsection \<open>C4: remove\<close>

text \<open>
  C4. A rule with \<^verbatim>\<open>remove: true\<close>: after the field is evaluated the destination is absent
  from the entry, the flag is raised exactly when the destination was there, and nothing
  but the debug line of the field is logged: the result depends neither on the engine nor
  on \<^verbatim>\<open>extract\<close>, \<^verbatim>\<open>replace\<close> or \<^verbatim>\<open>separator\<close>, and nothing is assigned. With that rule
  alone in the job list, \<^verbatim>\<open>process\<close> returns true iff the entry had the destination.
\<close>

theorem remove_is_terminal:
  assumes "c_remove cfg = Some True"
  shows "process_field re field cfg st =
           Inr (st\<lparr>entry := (entry st)(field := None),
                   modified := (modified st \<or> entry st field \<noteq> None),
                   logged := logged st @
                     [Debug_field field (case c_from cfg of None \<Rightarrow> field | Some f \<Rightarrow> f)
                        (entry_get (entry st) (case c_from cfg of None \<Rightarrow> field | Some f \<Rightarrow> f))]\<rparr>)
       \<and> (\<exists>st'. process re e [[(field, cfg)]] lg = Inr st' \<and> entry st' = e(field := None)
              \<and> entry st' field = None \<and> modified st' = (e field \<noteq> None))"
proof -
  have a: "entry st field = None \<Longrightarrow> (entry st)(field := None) = entry st" for st :: pstate
    by (simp add: fun_upd_idem)
  have pf: "process_field re field cfg st =
           Inr (st\<lparr>entry := (entry st)(field := None),
                   modified := (modified st \<or> entry st field \<noteq> None),
                   logged := logged st @
                     [Debug_field field (case c_from cfg of None \<Rightarrow> field | Some f \<Rightarrow> f)
                        (entry_get (entry st) (case c_from cfg of None \<Rightarrow> field | Some f \<Rightarrow> f))]\<rparr>)"
    for st :: pstate
    using assms by (cases "entry st field") (auto simp: process_field_def emit_def Let_def fun_upd_idem)
  show ?thesis
    by (simp add: pf process_def)
qed

text \<open>
  C4 at an input: a rule with remove, extract and replace, on an entry that has the field
  and on the empty entry.
\<close>

theorem remove_is_terminal_witness:
  "process_field py_re ''title''
     \<lparr>c_phase = None, c_from = None, c_extract = Some ''b'', c_separator = None,
      c_remove = Some True, c_replace = Some \<lparr>regexp = ''x'', format = ''y''\<rparr>\<rparr>
     \<lparr>entry = [''title'' \<mapsto> PStr ''abc''], modified = False, logged = []\<rparr> =
   Inr \<lparr>entry = Map.empty, modified = True,
        logged = [Debug_field ''title'' ''title'' (PStr ''abc'')]\<rparr>
 \<and> (\<exists>st'. process py_re Map.empty
        [[(''title'', \<lparr>c_phase = None, c_from = None, c_extract = Some ''b'', c_separator = None,
            c_remove = Some True, c_replace = Some \<lparr>regexp = ''x'', format = ''y''\<rparr>\<rparr>)]] [] =
        Inr st' \<and> entry st' = Map.empty \<and> modified st' = False)"
  using remove_is_terminal
          [where re = py_re and field = "''title''" and e = Map.empty and lg = "[]"
             and st = "\<lparr>entry = [''title'' \<mapsto> PStr ''abc''], modified = False, logged = []\<rparr>"
             and cfg = "\<lparr>c_phase = None, c_from = None, c_extract = Some ''b'',
                        c_separator = None, c_remove = Some True,
                        c_replace = Some \<lparr>regexp = ''x'', format = ''y''\<rparr>\<rparr>"]
  by (auto simp: entry_get_def)

subsection \<open>C5: extract\<close>

text \<open>
  C5. With the library model, the pattern \<^verbatim>\<open>\[\d\d\d\d\](.*)\<close> and the default separator
  turn \<^verbatim>\<open>[1999]Some Show\<close> into \<^verbatim>\<open>Some Show\<close>; the result is trimmed; the search ignores
  case, a group that took no part in the match is dropped and the others are joined by the
  separator. For every engine, the extract step on a non-empty value is the search with
  the flags \<^verbatim>\<open>re.I | re.U\<close>, and on a match the join of the groups that are not
  \<^verbatim>\<open>None\<close>, trimmed.
\<close>

theorem extract_bracket_year:
  "extract_step py_re field from_field
     (cfg\<lparr>c_extract := Some [bs, CHR ''['', bs, CHR ''d'', bs, CHR ''d'', bs, CHR ''d'', bs, CHR ''d'',
                               bs, CHR '']'', CHR ''('', CHR ''.'', CHR ''*'', CHR '')''],
          c_separator := None\<rparr>)
     (PStr ''[1999]Some Show'') st =
   Inr (Proceed (PStr ''Some Show'')
         (st\<lparr>logged := logged st @
            [Debug_groups [''Some Show''], Debug_after_extract field ''Some Show'']\<rparr>))
 \<and> extract_step py_re field from_field
     (cfg\<lparr>c_extract := Some [bs, CHR ''['', bs, CHR ''d'', bs, CHR ''d'', bs, CHR ''d'', bs, CHR ''d'',
                               bs, CHR '']'', CHR ''('', CHR ''.'', CHR ''*'', CHR '')''],
          c_separator := None\<rparr>)
     (PStr ''see [1999] Some Show '') st =
   Inr (Proceed (PStr ''Some Show'')
         (st\<lparr>logged := logged st @
            [Debug_groups ['' Some Show ''], Debug_after_extract field ''Some Show'']\<rparr>))
 \<and> extract_step py_re field from_field
     (cfg\<lparr>c_extract := Some ''(SOME) (show)|(x)'', c_separator := Some '', ''\<rparr>)
     (PStr ''[1999]Some Show'') st =
   Inr (Proceed (PStr ''Some, Show'')
         (st\<lparr>logged := logged st @
            [Debug_groups [''Some'', ''Show''], Debug_after_extract field ''Some, Show'']\<rparr>))
 \<and> extract_step re field from_field (cfg\<lparr>c_extract := Some pat\<rparr>) (PStr (c # s)) st =
     (case re_search re pat (c # s) {IGNORECASE, UNICODE} of
        Inl err \<Rightarrow> Inl err
      | Inr None \<Rightarrow> Inr (Proceed (PStr (c # s)) st)
      | Inr (Some match) \<Rightarrow>
          Inr (Proceed
            (PStr (strip (join (case c_separator cfg of None \<Rightarrow> '' '' | Some sep \<Rightarrow> sep)
                            (map the (filter (\<lambda>x. x \<noteq> None) match)))))
            (st\<lparr>logged := logged st @
               [Debug_groups (map the (filter (\<lambda>x. x \<noteq> None) match)),
                Debug_after_extract field
                  (strip (join (case c_separator cfg of None \<Rightarrow> '' '' | Some sep \<Rightarrow> sep)
                            (map the (filter (\<lambda>x. x \<noteq> None) match))))]\<rparr>)))"
proof (intro conjI)
  show "extract_step py_re field from_field
     (cfg\<lparr>c_extract := Some [bs, CHR ''['', bs, CHR ''d'', bs, CHR ''d'', bs, CHR ''d'', bs, CHR ''d'',
                               bs, CHR '']'', CHR ''('', CHR ''.'', CHR ''*'', CHR '')''],
          c_separator := None\<rparr>)
     (PStr ''[1999]Some Show'') st =
   Inr (Proceed (PStr ''Some Show'')
         (st\<lparr>logged := logged st @
            [Debug_groups [''Some Show''], Debug_after_extract field ''Some Show'']\<rparr>))"
    by (simp add: step_simps py_re_def search_bracket_year)
  show "extract_step py_re field from_field
     (cfg\<lparr>c_extract := Some [bs, CHR ''['', bs, CHR ''d'', bs, CHR ''d'', bs, CHR ''d'', bs, CHR ''d'',
                               bs, CHR '']'', CHR ''('', CHR ''.'', CHR ''*'', CHR '')''],
          c_separator := None\<rparr>)
     (PStr ''see [1999] Some Show '') st =
   Inr (Proceed (PStr ''Some Show'')
         (st\<lparr>logged := logged st @
            [Debug_groups ['' Some Show ''], Debug_after_extract field ''Some Show'']\<rparr>))"
    by (simp add: step_simps py_re_def search_bracket_year_padded)
  show "extract_step py_re field from_field
     (cfg\<lparr>c_extract := Some ''(SOME) (show)|(x)'', c_separator := Some '', ''\<rparr>)
     (PStr ''[1999]Some Show'') st =
   Inr (Proceed (PStr ''Some, Show'')
         (st\<lparr>logged := logged st @
            [Debug_groups [''Some'', ''Show''], Debug_after_extract field ''Some, Show'']\<rparr>))"
    by (simp add: step_simps py_re_def search_ignores_case)
  show "extract_step re field from_field (cfg\<lparr>c_extract := Some pat\<rparr>) (PStr (c # s)) st =
     (case re_search re pat (c # s) {IGNORECASE, UNICODE} of
        Inl err \<Rightarrow> Inl err
      | Inr None \<Rightarrow> Inr (Proceed (PStr (c # s)) st)
      | Inr (Some match) \<Rightarrow>
          Inr (Proceed
            (PStr (strip (join (case c_separator cfg of None \<Rightarrow> '' '' | Some sep \<Rightarrow> sep)
                            (map the (filter (\<lambda>x. x \<noteq> None) match)))))
            (st\<lparr>logged := logged st @
               [Debug_groups (map the (filter (\<lambda>x. x \<noteq> None) match)),
                Debug_after_extract field
                  (strip (join (case c_separator cfg of None \<Rightarrow> '' '' | Some sep \<Rightarrow> sep)
                            (map the (filter (\<lambda>x. x \<noteq> None) match))))]\<rparr>)))"
    by (simp add: extract_step_def emit_def Let_def split: sum.splits option.splits)
qed

subsection \<open>C6: extract without a match\<close>

text \<open>
  C6. On a non-empty value, when the search finds no match, the extract step hands on the
  very value it was given and logs nothing.
\<close>

theorem extract_no_match_is_identity:
  assumes "c_extract cfg = Some pat" and "s \<noteq> []"
    and "re_search re pat s {IGNORECASE, UNICODE} = Inr None"
  shows "extract_step re field from_field cfg (PStr s) st = Inr (Proceed (PStr s) st)"
  using assms by (simp add: extract_step_def)

text \<open>C6 at an input: the pattern \<^verbatim>\<open>x\<close> on \<^verbatim>\<open>abc\<close>.\<close>

theorem extract_no_match_is_identity_witness:
  "extract_step py_re ''title'' ''title''
     \<lparr>c_phase = None, c_from = None, c_extract = Some ''x'', c_separator = None,
      c_remove = None, c_replace = None\<rparr>
     (PStr ''abc'') \<lparr>entry = [''title'' \<mapsto> PStr ''abc''], modified = False, logged = []\<rparr> =
   Inr (Proceed (PStr ''abc'')
          \<lparr>entry = [''title'' \<mapsto> PStr ''abc''], modified = False, logged = []\<rparr>)"
proof -
  have m: "re_search py_re ''x'' ''abc'' {IGNORECASE, UNICODE} = Inr None"
    by (simp add: py_re_def search_no_match)
  show ?thesis
    using extract_no_match_is_identity
            [where re = py_re and pat = "''x''" and s = "''abc''" and field = "''title''"
               and from_field = "''title''"
               and st = "\<lparr>entry = [''title'' \<mapsto> PStr ''abc''], modified = False, logged = []\<rparr>"
               and cfg = "\<lparr>c_phase = None, c_from = None, c_extract = Some ''x'',
                          c_separator = None, c_remove = None, c_replace = None\<rparr>"] m
    by simp
qed

subsection \<open>C7: replace\<close>

text \<open>
  C7. With the library model, replacing \<^verbatim>\<open>\s+\<close> by one space turns \<^verbatim>\<open>a   b\<close> into
  \<^verbatim>\<open>a b\<close>; every match is replaced and the result is trimmed; the pattern ignores case.
  For every engine, the replace step on a non-empty value is \<^verbatim>\<open>sub\<close> of the pattern
  compiled with \<^verbatim>\<open>re.I | re.U\<close>, with the format as template, trimmed.
\<close>

theorem replace_whitespace_runs:
  "replace_step py_re field from_field
     (cfg\<lparr>c_replace := Some \<lparr>regexp = [bs, CHR ''s'', CHR ''+''], format = '' ''\<rparr>\<rparr>)
     (PStr ''a   b'') st =
   Inr (Proceed (PStr ''a b'') (st\<lparr>logged := logged st @ [Debug_after_replace field ''a b'']\<rparr>))
 \<and> replace_step py_re field from_field
     (cfg\<lparr>c_replace := Some \<lparr>regexp = [bs, CHR ''s'', CHR ''+''], format = '' ''\<rparr>\<rparr>)
     (PStr ''  a  b   c '') st =
   Inr (Proceed (PStr ''a b c'') (st\<lparr>logged := logged st @ [Debug_after_replace field ''a b c'']\<rparr>))
 \<and> replace_step py_re field from_field
     (cfg\<lparr>c_replace := Some \<lparr>regexp = ''B'', format = ''x''\<rparr>\<rparr>)
     (PStr ''abB'') st =
   Inr (Proceed (PStr ''axx'') (st\<lparr>logged := logged st @ [Debug_after_replace field ''axx'']\<rparr>))
 \<and> replace_step re field from_field (cfg\<lparr>c_replace := Some rc\<rparr>) (PStr (c # s)) st =
     (case re_sub re (regexp rc) {IGNORECASE, UNICODE} (format rc) (c # s) of
        Inl err \<Rightarrow> Inl err
      | Inr r \<Rightarrow>
          Inr (Proceed (PStr (strip r))
                (st\<lparr>logged := logged st @ [Debug_after_replace field (strip r)]\<rparr>)))"
proof (intro conjI)
  show "replace_step py_re field from_field
     (cfg\<lparr>c_replace := Some \<lparr>regexp = [bs, CHR ''s'', CHR ''+''], format = '' ''\<rparr>\<rparr>)
     (PStr ''a   b'') st =
   Inr (Proceed (PStr ''a b'') (st\<lparr>logged := logged st @ [Debug_after_replace field ''a b'']\<rparr>))"
    by (simp add: step_simps py_re_def sub_whitespace_run)
  show "replace_step py_re field from_field
     (cfg\<lparr>c_replace := Some \<lparr>regexp = [bs, CHR ''s'', CHR ''+''], format = '' ''\<rparr>\<rparr>)
     (PStr ''  a  b   c '') st =
   Inr (Proceed (PStr ''a b c'') (st\<lparr>logged := logged st @ [Debug_after_replace field ''a b c'']\<rparr>))"
    by (simp add: step_simps py_re_def sub_every_match)
  show "replace_step py_re field from_field
     (cfg\<lparr>c_replace := Some \<lparr>regexp = ''B'', format = ''x''\<rparr>\<rparr>)
     (PStr ''abB'') st =
   Inr (Proceed (PStr ''axx'') (st\<lparr>logged := logged st @ [Debug_after_replace field ''axx'']\<rparr>))"
    by (simp add: step_simps py_re_def sub_ignores_case)
  show "replace_step re field from_field (cfg\<lparr>c_replace := Some rc\<rparr>) (PStr (c # s)) st =
     (case re_sub re (regexp rc) {IGNORECASE, UNICODE} (format rc) (c # s) of
        Inl err \<Rightarrow> Inl err
      | Inr r \<Rightarrow>
          Inr (Proceed (PStr (strip r))
                (st\<lparr>logged := logged st @ [Debug_after_replace field (strip r)]\<rparr>)))"
    by (simp add: replace_step_def emit_def split: sum.splits)
qed

subsection \<open>C8: change detection and assignment\<close>

text \<open>
  C8 as stated: a rule whose source differs from its destination, without remove, on an
  entry that has the source value, always counts as modified and assigns. It does not
  when \<^verbatim>\<open>extract\<close> matches with an empty result and \<^verbatim>\<open>replace\<close> is present: for
  \<^verbatim>\<open>show_title: {from: title, extract: b, replace: {regexp: x, format: y}}\<close> and the title
  \<^verbatim>\<open>abc\<close> the field is skipped at line 139, nothing is assigned and \<^verbatim>\<open>process\<close> returns
  false.
\<close>

theorem rename_skipped_after_empty_extract:
  "process py_re [''title'' \<mapsto> PStr ''abc'']
     [[(''show_title'', \<lparr>c_phase = None, c_from = Some ''title'', c_extract = Some ''b'',
                           c_separator = None, c_remove = None,
                           c_replace = Some \<lparr>regexp = ''x'', format = ''y''\<rparr>\<rparr>)]] [] =
   Inr \<lparr>entry = [''title'' \<mapsto> PStr ''abc''], modified = False,
        logged = [Debug_field ''show_title'' ''title'' (PStr ''abc''), Debug_groups [],
                  Debug_after_extract ''show_title'' [], Warning_cannot_replace ''title'']\<rparr>"
  by (simp add: process_def field_simps py_re_def search_no_groups)

text \<open>
  C8, amended. A rule without remove, on an entry that has the source value (a string),
  whose extract and replace steps hand a value on to line 147 (the value after extract is
  not empty when replace is present, and the library raises no error): the value is assigned
  to the destination, and the field counts as modified iff source differs from destination
  or the destination's old value differs from the value assigned. So a source different
  from the destination always counts, also when the destination already held that value.
\<close>

theorem assignment_counts_as_modified:
  assumes "c_remove cfg \<noteq> Some True"
    and "from_field = (case c_from cfg of None \<Rightarrow> field | Some f \<Rightarrow> f)"
    and "entry st from_field = Some (PStr s)"
    and "extract_step re field from_field cfg (PStr s)
           (emit (Debug_field field from_field (PStr s)) st) = Inr (Proceed v_e st_e)"
    and "replace_step re field from_field cfg v_e st_e = Inr (Proceed v_r st_r)"
  shows "\<exists>st'. process_field re field cfg st = Inr st'
           \<and> entry st' field = Some v_r
           \<and> modified st' = (modified st \<or> from_field \<noteq> field \<or> entry st field \<noteq> Some v_r)"
proof -
  have src: "entry_get (entry st) from_field = PStr s"
    using assms(3) by (simp add: entry_get_def)
  obtain t where t: "v_e = PStr t"
    using extract_step_text[OF assms(4)] by blast
  obtain u where u: "v_r = PStr u"
    using replace_step_text[OF assms(5)[unfolded t]] by blast
  have f1: "entry st_e = entry st \<and> modified st_e = modified st"
    using extract_step_frame[OF assms(4)] by (simp add: emit_def)
  have f2: "entry st_r = entry st \<and> modified st_r = modified st"
    using replace_step_frame[OF assms(5)] f1 by simp
  have pf: "process_field re field cfg st = assign_step field from_field v_r st_r"
    using assms(1,2,4,5) src by (simp add: process_field_def Let_def)
  show ?thesis
  proof (cases "from_field = field")
    case True
    then have "entry st_r field = Some (PStr s)"
      using assms(3) f2 by simp
    then show ?thesis
      using True f2 unfolding pf u
      by (auto simp: assign_step_def entry_set_def emit_def Let_def)
  next
    case False
    then show ?thesis
      using f2 unfolding pf u
      by (auto simp: assign_step_def entry_set_def emit_def Let_def)
  qed
qed

text \<open>
  C8 at an input: \<^verbatim>\<open>show_title: {from: title}\<close> on an entry whose \<^verbatim>\<open>show_title\<close> already
  equals its \<^verbatim>\<open>title\<close>.
\<close>

theorem assignment_counts_as_modified_witness:
  "\<exists>st'. process_field py_re ''show_title''
       \<lparr>c_phase = None, c_from = Some ''title'', c_extract = None, c_separator = None,
        c_remove = None, c_replace = None\<rparr>
       \<lparr>entry = [''title'' \<mapsto> PStr ''T'', ''show_title'' \<mapsto> PStr ''T''],
        modified = False, logged = []\<rparr> = Inr st'
     \<and> entry st' ''show_title'' = Some (PStr ''T'')
     \<and> modified st' = True"
  using assignment_counts_as_modified
          [where re = py_re and field = "''show_title''" and from_field = "''title''"
             and s = "''T''" and v_e = "PStr ''T''" and v_r = "PStr ''T''"
             and st = "\<lparr>entry = [''title'' \<mapsto> PStr ''T'', ''show_title'' \<mapsto> PStr ''T''],
                       modified = False, logged = []\<rparr>"
             and st_e = "\<lparr>entry = [''title'' \<mapsto> PStr ''T'', ''show_title'' \<mapsto> PStr ''T''],
                       modified = False,
                       logged = [Debug_field ''show_title'' ''title'' (PStr ''T'')]\<rparr>"
             and st_r = "\<lparr>entry = [''title'' \<mapsto> PStr ''T'', ''show_title'' \<mapsto> PStr ''T''],
                       modified = False,
                       logged = [Debug_field ''show_title'' ''title'' (PStr ''T'')]\<rparr>"
             and cfg = "\<lparr>c_phase = None, c_from = Some ''title'', c_extract = None,
                        c_separator = None, c_remove = None, c_replace = None\<rparr>"]
  by (simp add: extract_step_def replace_step_def emit_def)

subsection \<open>C9: an extract pattern without capturing groups\<close>

text \<open>
  C9 as stated covers every rule whose extract pattern has no capturing group and which has
  no replace. With \<^verbatim>\<open>remove: true\<close> such a rule deletes the destination instead of setting
  it to the empty string: \<^verbatim>\<open>title: {remove: true, extract: b}\<close> on the title \<^verbatim>\<open>abc\<close>, where
  the pattern does match.
\<close>

theorem remove_wins_over_extract:
  "re_search py_re ''b'' ''abc'' {IGNORECASE, UNICODE} = Inr (Some [])
 \<and> process py_re [''title'' \<mapsto> PStr ''abc'']
     [[(''title'', \<lparr>c_phase = None, c_from = None, c_extract = Some ''b'', c_separator = None,
                     c_remove = Some True, c_replace = None\<rparr>)]] [] =
   Inr \<lparr>entry = Map.empty, modified = True,
        logged = [Debug_field ''title'' ''title'' (PStr ''abc'')]\<rparr>"
  by (simp add: process_def field_simps py_re_def search_no_groups)

text \<open>
  C9, amended. A rule without remove, whose extract pattern matches the non-empty source
  value with no capturing group: without replace the destination is set to the empty string
  and the field counts as modified; with replace the empty value after extract meets the
  check of line 139, a warning is logged and the entry and the flag stay as they were.
\<close>

theorem extract_without_groups_gives_empty:
  assumes "c_remove cfg \<noteq> Some True"
    and "c_extract cfg = Some pat"
    and "from_field = (case c_from cfg of None \<Rightarrow> field | Some f \<Rightarrow> f)"
    and "entry st from_field = Some (PStr s)" and "s \<noteq> []"
    and "re_search re pat s {IGNORECASE, UNICODE} = Inr (Some [])"
  shows "process_field re field cfg st =
     (if c_replace cfg = None then
        Inr (st\<lparr>entry := (entry st)(field \<mapsto> PStr []), modified := True,
                logged := logged st @
                  [Debug_field field from_field (PStr s), Debug_groups [],
                   Debug_after_extract field [], Verbose_field_now field (PStr [])]\<rparr>)
      else
        Inr (st\<lparr>logged := logged st @
                  [Debug_field field from_field (PStr s), Debug_groups [],
                   Debug_after_extract field [], Warning_cannot_replace from_field]\<rparr>))"
  using assms
  by (auto simp: process_field_def assign_step_def entry_set_def entry_get_def extract_step_def
        replace_step_def strip_def emit_def Let_def)

text \<open>
  C9 at two inputs: the pattern \<^verbatim>\<open>b\<close> on the title \<^verbatim>\<open>abc\<close>, without and with replace.
\<close>

theorem extract_without_groups_gives_empty_witness:
  "process_field py_re ''title''
     \<lparr>c_phase = None, c_from = None, c_extract = Some ''b'', c_separator = None,
      c_remove = None, c_replace = None\<rparr>
     \<lparr>entry = [''title'' \<mapsto> PStr ''abc''], modified = False, logged = []\<rparr> =
   Inr \<lparr>entry = [''title'' \<mapsto> PStr []], modified = True,
        logged = [Debug_field ''title'' ''title'' (PStr ''abc''), Debug_groups [],
                  Debug_after_extract ''title'' [], Verbose_field_now ''title'' (PStr [])]\<rparr>
 \<and> process_field py_re ''title''
     \<lparr>c_phase = None, c_from = None, c_extract = Some ''b'', c_separator = None,
      c_remove = None, c_replace = Some \<lparr>regexp = ''x'', format = ''y''\<rparr>\<rparr>
     \<lparr>entry = [''title'' \<mapsto> PStr ''abc''], modified = False, logged = []\<rparr> =
   Inr \<lparr>entry = [''title'' \<mapsto> PStr ''abc''], modified = False,
        logged = [Debug_field ''title'' ''title'' (PStr ''abc''), Debug_groups [],
                  Debug_after_extract ''title'' [], Warning_cannot_replace ''title'']\<rparr>"
proof -
  have m: "re_search py_re ''b'' ''abc'' {IGNORECASE, UNICODE} = Inr (Some [])"
    by (simp add: py_re_def search_no_groups)
  show ?thesis
    using extract_without_groups_gives_empty
            [where re = py_re and field = "''title''" and from_field = "''title''"
               and pat = "''b''" and s = "''abc''"
               and st = "\<lparr>entry = [''title'' \<mapsto> PStr ''abc''], modified = False, logged = []\<rparr>"
               and cfg = "\<lparr>c_phase = None, c_from = None, c_extract = Some ''b'',
                          c_separator = None, c_remove = None, c_replace = None\<rparr>"]
          extract_without_groups_gives_empty
            [where re = py_re and field = "''title''" and from_field = "''title''"
               and pat = "''b''" and s = "''abc''"
               and st = "\<lparr>entry = [''title'' \<mapsto> PStr ''abc''], modified = False, logged = []\<rparr>"
               and cfg = "\<lparr>c_phase = None, c_from = None, c_extract = Some ''b'',
                          c_separator = None, c_remove = None,
                          c_replace = Some \<lparr>regexp = ''x'', format = ''y''\<rparr>\<rparr>"]
          m
    by simp
qed

subsection \<open>C10: copying from an absent source\<close>

text \<open>
  C10 as stated covers every destination. For the destination \<^verbatim>\<open>title\<close> the entry refuses
  \<^verbatim>\<open>None\<close>: \<^verbatim>\<open>title: {from: original}\<close> on an entry without \<^verbatim>\<open>original\<close> raises
  \<^verbatim>\<open>PluginError\<close> at line 150 and writes nothing.
\<close>

theorem rename_to_title_raises_PluginError:
  "process_field py_re ''title''
     \<lparr>c_phase = None, c_from = Some ''original'', c_extract = None, c_separator = None,
      c_remove = None, c_replace = None\<rparr>
     \<lparr>entry = [''title'' \<mapsto> PStr ''T''], modified = False, logged = []\<rparr> =
   Inl (PluginError ''title'')"
  by (simp add: field_simps)

text \<open>
  C10, amended. A rule with a source different from its destination and with no extract,
  replace or remove, on an entry that has no source field: for a destination other than
  \<^verbatim>\<open>title\<close> and \<^verbatim>\<open>url\<close>, \<^verbatim>\<open>None\<close> is written into the destination and the field counts
  as modified; for \<^verbatim>\<open>title\<close> and \<^verbatim>\<open>url\<close> the assignment raises \<^verbatim>\<open>PluginError\<close>.
\<close>

theorem rename_of_absent_source_writes_None:
  assumes "c_from cfg = Some from_field" and "from_field \<noteq> field"
    and "c_extract cfg = None" and "c_replace cfg = None" and "c_remove cfg \<noteq> Some True"
    and "entry st from_field = None"
  shows "process_field re field cfg st =
           (if field = ''title'' \<or> field = ''url'' then Inl (PluginError field)
            else Inr (st\<lparr>entry := (entry st)(field \<mapsto> PNone), modified := True,
                         logged := logged st @
                           [Debug_field field from_field PNone,
                            Verbose_field_now field PNone]\<rparr>))"
  using assms
  by (simp add: process_field_def extract_step_def replace_step_def assign_step_def
        entry_set_def entry_get_def emit_def Let_def)

text \<open>
  C10 at two inputs: \<^verbatim>\<open>show_title: {from: title}\<close> on an entry that has a
  \<^verbatim>\<open>show_title\<close> and no \<^verbatim>\<open>title\<close>, and \<^verbatim>\<open>url: {from: link}\<close> on an entry without
  \<^verbatim>\<open>link\<close>.
\<close>

theorem rename_of_absent_source_writes_None_witness:
  "process_field py_re ''show_title''
     \<lparr>c_phase = None, c_from = Some ''title'', c_extract = None, c_separator = None,
      c_remove = None, c_replace = None\<rparr>
     \<lparr>entry = [''show_title'' \<mapsto> PStr ''S''], modified = False, logged = []\<rparr> =
   Inr \<lparr>entry = [''show_title'' \<mapsto> PNone], modified = True,
        logged = [Debug_field ''show_title'' ''title'' PNone,
                  Verbose_field_now ''show_title'' PNone]\<rparr>
 \<and> process_field py_re ''url''
     \<lparr>c_phase = None, c_from = Some ''link'', c_extract = None, c_separator = None,
      c_remove = None, c_replace = None\<rparr>
     \<lparr>entry = [''url'' \<mapsto> PStr ''U''], modified = False, logged = []\<rparr> =
   Inl (PluginError ''url'')"
  using rename_of_absent_source_writes_None
          [where re = py_re and field = "''show_title''" and from_field = "''title''"
             and st = "\<lparr>entry = [''show_title'' \<mapsto> PStr ''S''], modified = False, logged = []\<rparr>"
             and cfg = "\<lparr>c_phase = None, c_from = Some ''title'', c_extract = None,
                        c_separator = None, c_remove = None, c_replace = None\<rparr>"]
        rename_of_absent_source_writes_None
          [where re = py_re and field = "''url''" and from_field = "''link''"
             and st = "\<lparr>entry = [''url'' \<mapsto> PStr ''U''], modified = False, logged = []\<rparr>"
             and cfg = "\<lparr>c_phase = None, c_from = Some ''link'', c_extract = None,
                        c_separator = None, c_remove = None, c_replace = None\<rparr>"]
  by simp

end
